theory Spec2Isabelle
  imports Main
begin

section \<open>Runtime values\<close>

text \<open>
  The module \<^verbatim>\<open>packages/jest-matcher-utils/src/index.js\<close> inspects arbitrary
  JavaScript values. It observes a value through \<^verbatim>\<open>typeof\<close>, the comparison with
  \<^verbatim>\<open>null\<close>, \<^verbatim>\<open>Array.isArray\<close> and a read of the property
  \<^verbatim>\<open>constructor\<close>; the model of values carries what these observations need.

  \<^item> Numbers are the doubles with an integral value (counts, and examples such as
    \<^verbatim>\<open>3\<close>): \<open>Number i\<close> is the double whose value is the integer \<open>i\<close>, for the
    integers that are the value of one (\<open>is_double\<close> below).
  \<^item> A function object is identified by its name, so that identity (\<^verbatim>\<open>===\<close>) of
    two function objects is equality of the names.
  \<^item> An object other than a function or an array has an internal class (ordinary, or a
    genuine regular expression with its pattern), its own properties and a prototype
    (\<open>None\<close> is the \<^verbatim>\<open>null\<close> prototype). A property is a data property, or an
    accessor given by the outcome of running its getter.
  \<^item> Proxies and host objects are outside the model.
\<close>

datatype exn = Error string | TypeError string

datatype obj_class = Ordinary | RegExpObject string

datatype jsval =
    Undefined
  | Null
  | Boolean bool
  | Number int
  | String string
  | Symbol string
  | BigInt int
  | Function string
  | Array "jsval list"
  | Object obj
and obj = Obj obj_class "(string \<times> property) list" "obj option"
and property = Data jsval | Accessor "exn + jsval"

text \<open>The global binding \<^verbatim>\<open>RegExp\<close>.\<close>

definition RegExp :: jsval where
  "RegExp = Function ''RegExp''"

text \<open>The operator \<^verbatim>\<open>typeof\<close>.\<close>

fun typeof :: "jsval \<Rightarrow> string" where
  "typeof Undefined = ''undefined''"
| "typeof Null = ''object''"
| "typeof (Boolean b) = ''boolean''"
| "typeof (Number n) = ''number''"
| "typeof (String s) = ''string''"
| "typeof (Symbol d) = ''symbol''"
| "typeof (BigInt n) = ''bigint''"
| "typeof (Function f) = ''function''"
| "typeof (Array xs) = ''object''"
| "typeof (Object ob) = ''object''"

fun isArray :: "jsval \<Rightarrow> bool" where
  "isArray (Array xs) = True"
| "isArray v = False"

text \<open>
  Reading a property of an object: the object's own property if it has one, otherwise
  the prototype's, and \<^verbatim>\<open>undefined\<close> at the end of the prototype chain. An accessor
  property gives what its getter does, which may be to throw.
\<close>

fun Get_obj :: "obj \<Rightarrow> string \<Rightarrow> exn + jsval" where
  "Get_obj (Obj c ps proto) k =
     (case map_of ps k of
        Some (Data v) \<Rightarrow> Inr v
      | Some (Accessor r) \<Rightarrow> r
      | None \<Rightarrow> (case proto of None \<Rightarrow> Inr Undefined | Some p \<Rightarrow> Get_obj p k))"

text \<open>
  A property read \<^verbatim>\<open>value.k\<close>. On \<^verbatim>\<open>undefined\<close> and \<^verbatim>\<open>null\<close> it is a
  TypeError. On the other values that are not modelled with properties of their own,
  the property \<^verbatim>\<open>constructor\<close> is the one of the built-in prototype.
\<close>

fun builtin_constructor :: "jsval \<Rightarrow> string" where
  "builtin_constructor (Boolean b) = ''Boolean''"
| "builtin_constructor (Number n) = ''Number''"
| "builtin_constructor (String s) = ''String''"
| "builtin_constructor (Symbol d) = ''Symbol''"
| "builtin_constructor (BigInt n) = ''BigInt''"
| "builtin_constructor (Function f) = ''Function''"
| "builtin_constructor (Array xs) = ''Array''"
| "builtin_constructor v = ''Object''"

fun Get_constructor :: "jsval \<Rightarrow> exn + jsval" where
  "Get_constructor Undefined = Inl (TypeError ''Cannot read property 'constructor' of undefined'')"
| "Get_constructor Null = Inl (TypeError ''Cannot read property 'constructor' of null'')"
| "Get_constructor (Object ob) = Get_obj ob ''constructor''"
| "Get_constructor v = Inr (Function (builtin_constructor v))"

section \<open>Text of a number\<close>

definition digit :: "nat \<Rightarrow> char" where
  "digit d = ''0123456789'' ! d"

fun decimal_nat :: "nat \<Rightarrow> string" where
  "decimal_nat n = (if n < 10 then [digit n] else decimal_nat (n div 10) @ [digit (n mod 10)])"

declare decimal_nat.simps [simp del]

text \<open>The number that a string of digits denotes, read from the left.\<close>

definition digit_value :: "char \<Rightarrow> nat" where
  "digit_value c = length (takeWhile (\<lambda>d. d \<noteq> c) ''0123456789'')"

definition decimal_value :: "string \<Rightarrow> nat" where
  "decimal_value ds = foldl (\<lambda>a c. 10 * a + digit_value c) 0 ds"

text \<open>
  The decimal numeral of an integer. It is the text of a BigInt, and the text of a Number
  below \<open>2 ^ 53\<close>.
\<close>

definition decimal :: "int \<Rightarrow> string" where
  "decimal i = (if i < 0 then ''-'' @ decimal_nat (nat (- i)) else decimal_nat (nat i))"

text \<open>
  A Number is a double. The model carries the Numbers with an integral value, as that
  value; \<open>is_double\<close> says which naturals are the value of a double. \<open>to_double\<close> is the
  rounding of a natural to the nearest double, to the even significand on a tie (the
  naturals below \<open>2 ^ 1024\<close> do not overflow).
\<close>

fun bit_length :: "nat \<Rightarrow> nat" where
  "bit_length n = (if n = 0 then 0 else 1 + bit_length (n div 2))"

declare bit_length.simps [simp del]

definition to_double :: "nat \<Rightarrow> nat" where
  "to_double N =
    (if N < 2 ^ 53 then N
     else
       (let sh = bit_length N - 53; q = N div 2 ^ sh; r = N mod 2 ^ sh; h = 2 ^ (sh - 1)
        in (if h < r \<or> (r = h \<and> odd q) then q + 1 else q) * 2 ^ sh))"

definition is_double :: "nat \<Rightarrow> bool" where
  "is_double x = (x < 2 ^ 1024 \<and> to_double x = x)"

text \<open>
  \<^verbatim>\<open>Number::toString\<close> of a double \<open>x\<close> with a natural value: the digits are those of
  the \<open>s\<close> with the fewest digits such that \<open>s * 10 ^ j\<close> rounds to \<open>x\<close>, the closest to
  \<open>x\<close> if there are several. \<open>candidate x j\<close> is that \<open>s\<close> for a given \<open>j\<close>, if there is
  one, and \<open>shortest\<close> tries the exponents from the largest down.
\<close>

definition candidate :: "nat \<Rightarrow> nat \<Rightarrow> nat option" where
  "candidate x j =
    (let scale = 10 ^ j; lo = x div scale; hi = lo + 1;
         lo_ok = (to_double (lo * scale) = x); hi_ok = (to_double (hi * scale) = x)
     in if lo_ok \<and> hi_ok then
          (let dl = x - lo * scale; dh = hi * scale - x
           in if dl < dh then Some lo else if dh < dl then Some hi
              else if even lo then Some lo else Some hi)
        else if lo_ok then Some lo
        else if hi_ok then Some hi
        else None)"

fun shortest :: "nat \<Rightarrow> nat \<Rightarrow> nat \<times> nat" where
  "shortest x j =
    (if j = 0 then (x, 0)
     else case candidate x j of Some s \<Rightarrow> (s, j) | None \<Rightarrow> shortest x (j - 1))"

declare shortest.simps [simp del]

definition strip_zeros :: "string \<Rightarrow> string" where
  "strip_zeros ds = rev (dropWhile (\<lambda>c. c = CHR ''0'') (rev ds))"

text \<open>
  Below \<open>2 ^ 53\<close> every natural is a double and no other decimal rounds to it, so the
  text is the numeral. From there on the text is the digits of \<open>s\<close> followed by \<open>j\<close>
  zeros while that has at most 21 digits, and the exponent form otherwise.
\<close>

definition Number_toString_nat :: "nat \<Rightarrow> string" where
  "Number_toString_nat x =
    (if x < 2 ^ 53 then decimal_nat x
     else
       (case shortest x (length (decimal_nat x) - 1) of
          (s, j) \<Rightarrow>
            (let ds = decimal_nat s; n = length ds + j
             in if n \<le> 21 then ds @ replicate j (CHR ''0'')
                else
                  (let m = strip_zeros ds
                   in (if length m = 1 then m else hd m # ''.'' @ tl m) @
                      ''e+'' @ decimal_nat (n - 1)))))"

definition Number_toString :: "int \<Rightarrow> string" where
  "Number_toString i =
    (if i < 0 then ''-'' @ Number_toString_nat (nat (- i)) else Number_toString_nat (nat i))"

text \<open>
  The conversion \<^verbatim>\<open>${value}\<close> of a template literal. A symbol cannot be converted.
  An object would run its own \<^verbatim>\<open>toString\<close> method, which the model of values does
  not carry: \<open>getType\<close> below never converts one (lemma \<open>getType_converts_bigint_only\<close>),
  and the text given for them here is the one of a plain object.
\<close>

fun template_literal :: "jsval \<Rightarrow> exn + string" where
  "template_literal Undefined = Inr ''undefined''"
| "template_literal Null = Inr ''null''"
| "template_literal (Boolean b) = Inr (if b then ''true'' else ''false'')"
| "template_literal (Number n) = Inr (Number_toString n)"
| "template_literal (String s) = Inr s"
| "template_literal (Symbol d) = Inl (TypeError ''Cannot convert a Symbol value to a string'')"
| "template_literal (BigInt n) = Inr (decimal n)"
| "template_literal v = Inr ''[object Object]''"

section \<open>The module\<close>

subsection \<open>Collaborators\<close>

text \<open>
  The module requires two packages that are not part of it, \<^verbatim>\<open>chalk\<close> and
  \<^verbatim>\<open>pretty-format\<close>. Both are parameters of the model: \<open>chalk\<close> is the three styles
  the module uses, and the pretty-printer is a function of the value and the options
  object that returns a string or throws.
\<close>

record chalk =
  green :: "string \<Rightarrow> string"
  red :: "string \<Rightarrow> string"
  dim :: "string \<Rightarrow> string"

text \<open>
  The options object. \<open>callToJSON = None\<close> is an options object without that key.
\<close>

record pf_options =
  callToJSON :: "bool option"
  maxDepth :: nat
  min_opt :: bool

type_synonym prettyFormat = "jsval \<Rightarrow> pf_options \<Rightarrow> exn + string"

definition EXPECTED_COLOR :: "chalk \<Rightarrow> string \<Rightarrow> string" where
  "EXPECTED_COLOR ch = green ch"

definition RECEIVED_COLOR :: "chalk \<Rightarrow> string \<Rightarrow> string" where
  "RECEIVED_COLOR ch = red ch"

definition NUMBERS :: "string list" where
  "NUMBERS =
    [''zero'', ''one'', ''two'', ''three'', ''four'', ''five'', ''six'', ''seven'',
     ''eight'', ''nine'', ''ten'', ''eleven'', ''twelve'', ''thirteen'']"

text \<open>The members of the type \<^verbatim>\<open>ValueType\<close>.\<close>

definition ValueType :: "string list" where
  "ValueType =
    [''array'', ''boolean'', ''function'', ''null'', ''number'', ''object'', ''regexp'',
     ''string'', ''symbol'', ''undefined'']"

subsection \<open>getType\<close>

definition getType :: "jsval \<Rightarrow> exn + string" where
  "getType value =
    (if typeof value = ''undefined'' then Inr ''undefined''
     else if value = Null then Inr ''null''
     else if isArray value then Inr ''array''
     else if typeof value = ''boolean'' then Inr ''boolean''
     else if typeof value = ''function'' then Inr ''function''
     else if typeof value = ''number'' then Inr ''number''
     else if typeof value = ''string'' then Inr ''string''
     else if typeof value = ''object'' then
       (case Get_constructor value of
          Inl e \<Rightarrow> Inl e
        | Inr c \<Rightarrow> if c = RegExp then Inr ''regexp'' else Inr ''object'')
     else if typeof value = ''symbol'' then Inr ''symbol''
     else
       (case template_literal value of
          Inl e \<Rightarrow> Inl e
        | Inr s \<Rightarrow> Inl (Error (''value of unknown type: '' @ s))))"

subsection \<open>stringify and the print functions\<close>

definition stringify :: "prettyFormat \<Rightarrow> jsval \<Rightarrow> exn + string" where
  "stringify pf object =
    (case pf object \<lparr>callToJSON = None, maxDepth = 10, min_opt = True\<rparr> of
       Inr s \<Rightarrow> Inr s
     | Inl e \<Rightarrow> pf object \<lparr>callToJSON = Some False, maxDepth = 10, min_opt = True\<rparr>)"

definition printReceived :: "chalk \<Rightarrow> prettyFormat \<Rightarrow> jsval \<Rightarrow> exn + string" where
  "printReceived ch pf object =
    (case stringify pf object of Inl e \<Rightarrow> Inl e | Inr s \<Rightarrow> Inr (RECEIVED_COLOR ch s))"

definition printExpected :: "chalk \<Rightarrow> prettyFormat \<Rightarrow> jsval \<Rightarrow> exn + string" where
  "printExpected ch pf value =
    (case stringify pf value of Inl e \<Rightarrow> Inl e | Inr s \<Rightarrow> Inr (EXPECTED_COLOR ch s))"

definition newline :: string where
  "newline = [CHR 0x0A]"

definition printWithType ::
  "string \<Rightarrow> jsval \<Rightarrow> (jsval \<Rightarrow> exn + string) \<Rightarrow> exn + string" where
  "printWithType name received print =
    (case getType received of
       Inl e \<Rightarrow> Inl e
     | Inr type \<Rightarrow>
        (case print received of
           Inl e \<Rightarrow> Inl e
         | Inr s \<Rightarrow>
            Inr (name @ '':'' @
                 (if type \<noteq> ''null'' \<and> type \<noteq> ''undefined''
                  then newline @ ''  '' @ type @ '': ''
                  else '' '') @
                 s)))"

subsection \<open>matcherHint and pluralize\<close>

text \<open>
  An optional argument is \<open>None\<close> when the caller leaves it out or passes
  \<^verbatim>\<open>undefined\<close>; a default parameter value applies in both cases.
\<close>

definition matcherHint :: "chalk \<Rightarrow> string \<Rightarrow> string option \<Rightarrow> string option \<Rightarrow> string" where
  "matcherHint ch matcherName received expected =
    (let received = (case received of None \<Rightarrow> ''received'' | Some r \<Rightarrow> r);
         expected = (case expected of None \<Rightarrow> ''expected'' | Some x \<Rightarrow> x)
     in dim ch ''expect('' @ RECEIVED_COLOR ch received @
        dim ch ('')'' @ matcherName @ ''('') @
        EXPECTED_COLOR ch expected @ dim ch '')'')"

text \<open>
  \<^verbatim>\<open>NUMBERS[count]\<close>: the element at an index inside the array, \<^verbatim>\<open>undefined\<close>
  (\<open>None\<close>) at any other index.
\<close>

definition NUMBERS_at :: "int \<Rightarrow> string option" where
  "NUMBERS_at count =
    (if 0 \<le> count \<and> nat count < length NUMBERS then Some (NUMBERS ! nat count) else None)"

text \<open>
  \<^verbatim>\<open>(NUMBERS[count] || count)\<close>, converted to a string by the concatenation that
  follows: the left operand if it is truthy (a string that is not empty), the count
  otherwise. The count is a Number with an integral value: an integer whose magnitude
  satisfies \<open>is_double\<close>, converted as \<open>Number_toString\<close> does.
\<close>

definition pluralize :: "string \<Rightarrow> int \<Rightarrow> string" where
  "pluralize word count =
    (case NUMBERS_at count of
       Some w \<Rightarrow> if w \<noteq> [] then w else Number_toString count
     | None \<Rightarrow> Number_toString count) @
    '' '' @ word @ (if count = 1 then [] else ''s'')"

subsection \<open>Guards\<close>

text \<open>
  \<^verbatim>\<open>matcherName || (matcherName = d)\<close>: the name is kept if it is truthy, and replaced
  by the default if it is \<^verbatim>\<open>undefined\<close> or the empty string.
\<close>

definition or_default :: "string option \<Rightarrow> string \<Rightarrow> string" where
  "or_default matcherName d =
    (case matcherName of None \<Rightarrow> d | Some n \<Rightarrow> if n \<noteq> [] then n else d)"

definition ensureNoExpected ::
  "chalk \<Rightarrow> prettyFormat \<Rightarrow> jsval \<Rightarrow> string option \<Rightarrow> exn + unit" where
  "ensureNoExpected ch pf expected matcherName =
    (let matcherName = or_default matcherName ''This'' in
     if typeof expected \<noteq> ''undefined'' then
       (case printWithType ''Got'' expected (printExpected ch pf) of
          Inl e \<Rightarrow> Inl e
        | Inr s \<Rightarrow>
           Inl (Error (matcherHint ch (''[.not]'' @ matcherName) None (Some []) @
                       newline @ newline @
                       ''Matcher does not accept any arguments.'' @ newline @
                       s)))
     else Inr ())"

definition ensureActualIsNumber ::
  "chalk \<Rightarrow> prettyFormat \<Rightarrow> jsval \<Rightarrow> string option \<Rightarrow> exn + unit" where
  "ensureActualIsNumber ch pf actual matcherName =
    (let matcherName = or_default matcherName ''This matcher'' in
     if typeof actual \<noteq> ''number'' then
       (case printWithType ''Received'' actual (printReceived ch pf) of
          Inl e \<Rightarrow> Inl e
        | Inr s \<Rightarrow>
           Inl (Error (matcherHint ch (''[.not]'' @ matcherName) None None @
                       newline @ newline @
                       ''Actual value must be a number.'' @ newline @
                       s)))
     else Inr ())"

definition ensureExpectedIsNumber ::
  "chalk \<Rightarrow> prettyFormat \<Rightarrow> jsval \<Rightarrow> string option \<Rightarrow> exn + unit" where
  "ensureExpectedIsNumber ch pf expected matcherName =
    (let matcherName = or_default matcherName ''This matcher'' in
     if typeof expected \<noteq> ''number'' then
       (case printWithType ''Got'' expected (printExpected ch pf) of
          Inl e \<Rightarrow> Inl e
        | Inr s \<Rightarrow>
           Inl (Error (matcherHint ch (''[.not]'' @ matcherName) None None @
                       newline @ newline @
                       ''Expected value must be a number.'' @ newline @
                       s)))
     else Inr ())"

definition ensureNumbers ::
  "chalk \<Rightarrow> prettyFormat \<Rightarrow> jsval \<Rightarrow> jsval \<Rightarrow> string option \<Rightarrow> exn + unit" where
  "ensureNumbers ch pf actual expected matcherName =
    (case ensureActualIsNumber ch pf actual matcherName of
       Inl e \<Rightarrow> Inl e
     | Inr u \<Rightarrow> ensureExpectedIsNumber ch pf expected matcherName)"

section \<open>Sample values and collaborators\<close>

text \<open>
  Concrete inputs at which the theorems below are instantiated: the standard prototypes,
  a regular expression literal, colour functions that pass their argument through, and a
  small pretty-printer.
\<close>

definition Object_prototype :: obj where
  "Object_prototype = Obj Ordinary [(''constructor'', Data (Function ''Object''))] None"

definition RegExp_prototype :: obj where
  "RegExp_prototype = Obj Ordinary [(''constructor'', Data RegExp)] (Some Object_prototype)"

text \<open>The literal \<^verbatim>\<open>/pattern/\<close>.\<close>

definition regexp_literal :: "string \<Rightarrow> jsval" where
  "regexp_literal pattern =
     Object (Obj (RegExpObject pattern) [(''lastIndex'', Data (Number 0))] (Some RegExp_prototype))"

text \<open>\<^verbatim>\<open>chalk\<close> when the output is not a colour-capable destination.\<close>

definition plain_chalk :: chalk where
  "plain_chalk = \<lparr>green = (\<lambda>s. s), red = (\<lambda>s. s), dim = (\<lambda>s. s)\<rparr>"

text \<open>
  The sample pretty-printer prints a primitive value as its text. On an object it first
  calls the hook \<^verbatim>\<open>toJSON\<close>, unless the options disable that, and then reads the
  object's own properties in order; the function named \<open>throws\<close> stands for a hook that
  throws, and a property whose getter throws makes the printer throw.
\<close>

fun first_failure :: "(string \<times> property) list \<Rightarrow> exn option" where
  "first_failure [] = None"
| "first_failure ((k, Accessor (Inl e)) # ps) = Some e"
| "first_failure (p # ps) = first_failure ps"

fun sample_prettyFormat :: prettyFormat where
  "sample_prettyFormat Undefined opts = Inr ''undefined''"
| "sample_prettyFormat Null opts = Inr ''null''"
| "sample_prettyFormat (Boolean b) opts = Inr (if b then ''true'' else ''false'')"
| "sample_prettyFormat (Number n) opts = Inr (Number_toString n)"
| "sample_prettyFormat (String s) opts = Inr s"
| "sample_prettyFormat (Symbol d) opts = Inr (''Symbol('' @ d @ '')'')"
| "sample_prettyFormat (BigInt n) opts = Inr (decimal n @ ''n'')"
| "sample_prettyFormat (Function f) opts = Inr (''[Function '' @ f @ '']'')"
| "sample_prettyFormat (Array xs) opts = Inr ''[Array]''"
| "sample_prettyFormat (Object (Obj c ps proto)) opts =
     (if callToJSON opts \<noteq> Some False \<and> map_of ps ''toJSON'' = Some (Data (Function ''throws''))
      then Inl (Error ''toJSON'')
      else case first_failure ps of Some e \<Rightarrow> Inl e | None \<Rightarrow> Inr ''[Object]'')"

text \<open>
  An object whose hook throws, one whose hook and whose getter both throw, and one whose
  property \<^verbatim>\<open>constructor\<close> is an accessor that throws.
\<close>

definition throwing_constructor :: jsval where
  "throwing_constructor =
     Object (Obj Ordinary [(''constructor'', Accessor (Inl (Error ''boom'')))]
       (Some Object_prototype))"

definition hook_throws :: jsval where
  "hook_throws =
     Object (Obj Ordinary [(''toJSON'', Data (Function ''throws''))] (Some Object_prototype))"

definition hook_and_getter_throw :: jsval where
  "hook_and_getter_throw =
     Object (Obj Ordinary
       [(''toJSON'', Data (Function ''throws'')), (''a'', Accessor (Inl (Error ''getter'')))]
       (Some Object_prototype))"

section \<open>Vocabulary of the properties\<close>

text \<open>The results of \<^verbatim>\<open>typeof\<close> that \<open>getType\<close> tests for.\<close>

definition known_kinds :: "string list" where
  "known_kinds =
    [''undefined'', ''boolean'', ''function'', ''number'', ''string'', ''object'', ''symbol'']"

definition recognized :: "jsval \<Rightarrow> bool" where
  "recognized v = (typeof v \<in> set known_kinds)"

text \<open>
  A generic object is a value that reaches the branch \<^verbatim>\<open>typeof value === 'object'\<close>
  of \<open>getType\<close>; its property \<^verbatim>\<open>constructor\<close> is readable when the read returns.
\<close>

definition generic_object :: "jsval \<Rightarrow> bool" where
  "generic_object v = (typeof v = ''object'' \<and> v \<noteq> Null \<and> \<not> isArray v)"

definition constructor_readable :: "jsval \<Rightarrow> bool" where
  "constructor_readable v = (if generic_object v then \<not> isl (Get_constructor v) else True)"

text \<open>
  What \<open>getType\<close> observes of a value: the result of \<^verbatim>\<open>typeof\<close>, whether the value
  is \<^verbatim>\<open>null\<close>, whether it is an array and, for a generic object, the outcome of
  comparing its constructor with \<^verbatim>\<open>RegExp\<close>.
\<close>

definition observations :: "jsval \<Rightarrow> string \<times> bool \<times> bool \<times> (exn + bool) option" where
  "observations v =
    (typeof v, v = Null, isArray v,
     if generic_object v then Some (map_sum (\<lambda>e. e) (\<lambda>c. c = RegExp) (Get_constructor v))
     else None)"

text \<open>
  The order of the checks in the words of the specification: a list of steps, each of
  which gives a tag to the values it matches, and the first step that matches decides.
\<close>

definition classify_steps :: "(jsval \<Rightarrow> string option) list" where
  "classify_steps =
    [\<lambda>v. if v = Undefined then Some ''undefined'' else None,
     \<lambda>v. if v = Null then Some ''null'' else None,
     \<lambda>v. if isArray v then Some ''array'' else None,
     \<lambda>v. if typeof v = ''boolean'' then Some ''boolean'' else None,
     \<lambda>v. if typeof v = ''function'' then Some ''function'' else None,
     \<lambda>v. if typeof v = ''number'' then Some ''number'' else None,
     \<lambda>v. if typeof v = ''string'' then Some ''string'' else None,
     \<lambda>v. if typeof v = ''object''
          then Some (if Get_constructor v = Inr RegExp then ''regexp'' else ''object'')
          else None,
     \<lambda>v. if typeof v = ''symbol'' then Some ''symbol'' else None]"

fun first_match :: "('a \<Rightarrow> 'b option) list \<Rightarrow> 'a \<Rightarrow> 'b option" where
  "first_match [] v = None"
| "first_match (step # steps) v =
     (case step v of Some t \<Rightarrow> Some t | None \<Rightarrow> first_match steps v)"

section \<open>Basic facts\<close>

lemma typeof_undefined_iff: "typeof v = ''undefined'' \<longleftrightarrow> v = Undefined"
  by (cases v) simp_all

lemma typeof_number_iff: "typeof v = ''number'' \<longleftrightarrow> (\<exists>n. v = Number n)"
  by (cases v) simp_all

lemma getType_primitive:
  "getType Undefined = Inr ''undefined''"
  "getType Null = Inr ''null''"
  "getType (Boolean b) = Inr ''boolean''"
  "getType (Number n) = Inr ''number''"
  "getType (String s) = Inr ''string''"
  "getType (Symbol d) = Inr ''symbol''"
  "getType (Function f) = Inr ''function''"
  "getType (Array xs) = Inr ''array''"
  by (simp_all add: getType_def)

lemma getType_BigInt:
  "getType (BigInt n) = Inl (Error (''value of unknown type: '' @ decimal n))"
  by (simp add: getType_def)

lemma getType_Object:
  "getType (Object ob) =
     (case Get_obj ob ''constructor'' of
        Inl e \<Rightarrow> Inl e
      | Inr c \<Rightarrow> if c = RegExp then Inr ''regexp'' else Inr ''object'')"
  by (simp add: getType_def)

text \<open>
  \<open>getType\<close> throws in two ways only: on a value whose \<^verbatim>\<open>typeof\<close> it does not test
  for, which is the one place where it converts the value to a string, and on an object
  whose property \<^verbatim>\<open>constructor\<close> cannot be read.
\<close>

lemma getType_converts_bigint_only:
  "getType v = Inl e \<Longrightarrow>
     (\<exists>n. v = BigInt n \<and> e = Error (''value of unknown type: '' @ decimal n)) \<or>
     (\<exists>ob. v = Object ob \<and> Get_obj ob ''constructor'' = Inl e)"
  by (cases v) (auto simp: getType_primitive getType_Object getType_BigInt split: sum.splits if_splits)

lemma generic_object_iff: "generic_object v \<longleftrightarrow> (\<exists>ob. v = Object ob)"
  by (cases v) (simp_all add: generic_object_def)

lemma recognized_iff: "recognized v \<longleftrightarrow> (\<forall>n. v \<noteq> BigInt n)"
  by (cases v) (simp_all add: recognized_def known_kinds_def)

lemma getType_in_ValueType: "getType v = Inr t \<Longrightarrow> t \<in> set ValueType"
  by (cases v)
     (auto simp: getType_primitive getType_Object getType_BigInt ValueType_def
           split: sum.splits if_splits)

lemma getType_returns:
  assumes "recognized v" and "constructor_readable v"
  shows "\<exists>t. getType v = Inr t"
proof (cases v)
  case (Object ob)
  with assms(2) obtain c where "Get_obj ob ''constructor'' = Inr c"
    by (cases "Get_obj ob ''constructor''") (simp_all add: constructor_readable_def generic_object_def)
  with Object show ?thesis by (simp add: getType_Object)
next
  case (BigInt n)
  with assms(1) show ?thesis by (simp add: recognized_iff)
qed (simp_all add: getType_primitive)

lemma getType_isArray: "isArray v \<Longrightarrow> getType v = Inr ''array''"
  by (cases v) (simp_all add: getType_primitive)

text \<open>
  Apart from \<^verbatim>\<open>null\<close>, arrays and generic objects, the tag of a value of a recognized
  kind is the result of \<^verbatim>\<open>typeof\<close>.
\<close>

lemma getType_typeof:
  assumes "recognized v" and "v \<noteq> Null" and "\<not> isArray v" and "\<not> generic_object v"
  shows "getType v = Inr (typeof v)"
  using assms by (cases v) (simp_all add: getType_primitive recognized_iff generic_object_def)

lemma Get_regexp_literal: "Get_constructor (regexp_literal p) = Inr RegExp"
  by (simp add: regexp_literal_def RegExp_prototype_def)

lemma getType_regexp_literal: "getType (regexp_literal p) = Inr ''regexp''"
  using Get_regexp_literal [of p] by (simp add: regexp_literal_def getType_Object)

lemma digit_values:
  "digit 0 = CHR ''0''" "digit 1 = CHR ''1''" "digit 2 = CHR ''2''" "digit 3 = CHR ''3''"
  "digit 4 = CHR ''4''" "digit 5 = CHR ''5''" "digit 6 = CHR ''6''" "digit 7 = CHR ''7''"
  "digit 8 = CHR ''8''" "digit 9 = CHR ''9''" "digit (Suc 0) = CHR ''1''"
  by (simp_all add: digit_def)

lemma decimal_small:
  "decimal 3 = ''3''" "decimal 5 = ''5''" "decimal 20 = ''20''"
  by (simp_all add: decimal_def decimal_nat.simps digit_values)

lemma Number_toString_safe:
  "0 \<le> i \<Longrightarrow> i < 2 ^ 53 \<Longrightarrow> Number_toString i = decimal i"
  by (simp add: Number_toString_def Number_toString_nat_def decimal_def nat_less_iff)

lemma Number_toString_small:
  "Number_toString 3 = ''3''" "Number_toString 5 = ''5''" "Number_toString 20 = ''20''"
  by (simp_all add: Number_toString_safe decimal_small)

text \<open>The decimal text of a count denotes the count.\<close>

lemma digit_value_digit: "d < 10 \<Longrightarrow> digit_value (digit d) = d"
proof -
  assume "d < 10"
  then have "d \<in> {0, 1, 2, 3, 4, 5, 6, 7, 8, 9}" by auto
  then show ?thesis
    by (auto simp: digit_def digit_value_def)
qed

lemma decimal_nat_value: "decimal_value (decimal_nat n) = n"
  unfolding decimal_value_def
proof (induction n rule: decimal_nat.induct)
  case (1 n)
  show ?case
  proof (cases "n < 10")
    case True
    then show ?thesis
      by (subst decimal_nat.simps) (simp add: digit_value_digit)
  next
    case False
    with 1 show ?thesis
      by (subst decimal_nat.simps) (simp add: digit_value_digit)
  qed
qed

lemma decimal_value: "decimal_value (decimal (int n)) = n"
  by (simp add: decimal_def decimal_nat_value)

section \<open>stringify\<close>

text \<open>
  C1, as the specification states it: whenever the first call of the pretty-printer
  throws, \<open>stringify\<close> does not throw and returns the string of a second call with
  \<open>callToJSON: false\<close>. The code has no handler around the second call: on the object
  whose hook and whose getter both throw, the first call of the sample pretty-printer
  throws, and \<open>stringify\<close> throws what the second call throws.
\<close>

theorem stringify_never_throws_counterexample:
  "sample_prettyFormat hook_and_getter_throw
     \<lparr>callToJSON = None, maxDepth = 10, min_opt = True\<rparr> = Inl (Error ''toJSON'') \<and>
   stringify sample_prettyFormat hook_and_getter_throw = Inl (Error ''getter'')"
  by (simp add: stringify_def hook_and_getter_throw_def)

text \<open>
  C1, amended: whenever the first call of the pretty-printer (options \<open>maxDepth: 10\<close>,
  \<open>min: true\<close>) throws, the outcome of \<open>stringify\<close> is the outcome of a second call with
  \<open>callToJSON: false\<close> and the same \<open>maxDepth: 10\<close> and \<open>min: true\<close>: the string that this
  call returns, if it returns one.
\<close>

theorem stringify_fallback:
  assumes "pf v \<lparr>callToJSON = None, maxDepth = 10, min_opt = True\<rparr> = Inl e"
  shows "stringify pf v = pf v \<lparr>callToJSON = Some False, maxDepth = 10, min_opt = True\<rparr>"
  using assms by (simp add: stringify_def)

theorem stringify_fallback_witness:
  "sample_prettyFormat hook_throws
     \<lparr>callToJSON = None, maxDepth = 10, min_opt = True\<rparr> = Inl (Error ''toJSON'') \<and>
   stringify sample_prettyFormat hook_throws = Inr ''[Object]''"
proof -
  have h: "sample_prettyFormat hook_throws
     \<lparr>callToJSON = None, maxDepth = 10, min_opt = True\<rparr> = Inl (Error ''toJSON'')"
    by (simp add: hook_throws_def)
  show ?thesis
    using h stringify_fallback [where pf = sample_prettyFormat and v = hook_throws, OF h]
    by (simp add: hook_throws_def)
qed

section \<open>getType\<close>

text \<open>
  C2, as the specification states it: \<open>getType\<close> returns a tag for every value, and two
  values of the same kind get the same tag. A value whose \<^verbatim>\<open>typeof\<close> is none of those
  that \<open>getType\<close> tests for reaches the final \<^verbatim>\<open>throw\<close>; an object whose property
  \<^verbatim>\<open>constructor\<close> is an accessor that throws makes \<open>getType\<close> throw as well; and two
  ordinary objects, which \<^verbatim>\<open>typeof\<close>, the comparison with \<^verbatim>\<open>null\<close> and
  \<^verbatim>\<open>Array.isArray\<close> do not tell apart, get different tags.
\<close>

theorem getType_every_value_counterexample:
  "getType (BigInt 10) = Inl (Error ''value of unknown type: 10'') \<and>
   getType (Object (Obj Ordinary [(''constructor'', Accessor (Inl (Error ''boom'')))]
                      (Some Object_prototype))) = Inl (Error ''boom'') \<and>
   getType (Object (Obj Ordinary [] (Some Object_prototype))) = Inr ''object'' \<and>
   getType (Object (Obj Ordinary [(''constructor'', Data RegExp)] (Some Object_prototype)))
     = Inr ''regexp''"
  by (simp add: getType_BigInt getType_Object Object_prototype_def RegExp_def
        decimal_def decimal_nat.simps digit_values)

text \<open>
  C2, amended: for every value \<open>v\<close> of a recognized kind (its \<^verbatim>\<open>typeof\<close> is one of
  \<open>undefined\<close>, \<open>boolean\<close>, \<open>function\<close>, \<open>number\<close>, \<open>string\<close>, \<open>object\<close>, \<open>symbol\<close>) whose
  property \<^verbatim>\<open>constructor\<close> can be read when \<open>v\<close> is a generic object, \<open>getType\<close>
  returns a tag of the closed set \<open>ValueType\<close> and does not throw, so the final
  \<^verbatim>\<open>throw\<close> is not reached; the tag depends only on what \<open>getType\<close> observes of the
  value (its \<^verbatim>\<open>typeof\<close>, whether it is \<^verbatim>\<open>null\<close>, whether it is an array and,
  for a generic object, whether its constructor is \<^verbatim>\<open>RegExp\<close>); and the tags of
  \<^verbatim>\<open>[1,2]\<close>, \<^verbatim>\<open>null\<close>, \<^verbatim>\<open>/a/\<close> and \<^verbatim>\<open>undefined\<close> are \<open>array\<close>, \<open>null\<close>,
  \<open>regexp\<close> and \<open>undefined\<close>.
\<close>

theorem getType_recognized:
  assumes "recognized v" and "constructor_readable v"
  shows "(\<exists>t. getType v = Inr t \<and> t \<in> set ValueType) \<and>
         (\<forall>w. observations w = observations v \<longrightarrow> getType w = getType v) \<and>
         getType (Array [Number 1, Number 2]) = Inr ''array'' \<and>
         getType Null = Inr ''null'' \<and>
         getType (regexp_literal ''a'') = Inr ''regexp'' \<and>
         getType Undefined = Inr ''undefined''"
proof -
  from getType_returns [OF assms] obtain t where t: "getType v = Inr t" ..
  then have closed: "\<exists>t. getType v = Inr t \<and> t \<in> set ValueType"
    using getType_in_ValueType by blast
  have pure: "getType w = getType v" if obs: "observations w = observations v" for w
  proof -
    from obs have ty: "typeof w = typeof v" and nu: "(w = Null) = (v = Null)"
      and ar: "isArray w = isArray v" and go: "generic_object w = generic_object v"
      by (simp_all add: observations_def generic_object_def)
    show ?thesis
    proof (cases "generic_object v")
      case True
      with go obtain ob ob' where v: "v = Object ob" and w: "w = Object ob'"
        by (auto simp: generic_object_iff)
      from obs True go
      have "map_sum (\<lambda>e. e) (\<lambda>c. c = RegExp) (Get_constructor w) =
            map_sum (\<lambda>e. e) (\<lambda>c. c = RegExp) (Get_constructor v)"
        by (simp add: observations_def)
      then show ?thesis
        unfolding v w getType_Object
        by (cases "Get_obj ob ''constructor''"; cases "Get_obj ob' ''constructor''") auto
    next
      case False
      with go have nw: "\<not> generic_object w" by simp
      from assms(1) ty have rw: "recognized w" by (simp add: recognized_def)
      show ?thesis
      proof (cases "v = Null")
        case True
        with nu show ?thesis by simp
      next
        case notnull: False
        show ?thesis
        proof (cases "isArray v")
          case True
          with ar show ?thesis by (simp add: getType_isArray)
        next
          case notarray: False
          from getType_typeof [OF assms(1) notnull notarray False]
               getType_typeof [OF rw _ _ nw] nu ar notnull notarray ty
          show ?thesis by simp
        qed
      qed
    qed
  qed
  show ?thesis
  proof (intro conjI allI impI)
    show "\<exists>t. getType v = Inr t \<and> t \<in> set ValueType"
      by (rule closed)
    show "getType w = getType v" if "observations w = observations v" for w
      using that by (rule pure)
  qed (simp_all add: getType_primitive getType_regexp_literal)
qed

theorem getType_recognized_witness:
  "recognized (regexp_literal ''a'') \<and> constructor_readable (regexp_literal ''a'') \<and>
   getType (regexp_literal ''a'') = Inr ''regexp'' \<and> ''regexp'' \<in> set ValueType \<and>
   observations (Object (Obj Ordinary [(''constructor'', Data RegExp)] None))
     = observations (regexp_literal ''a'') \<and>
   getType (Object (Obj Ordinary [(''constructor'', Data RegExp)] None)) = Inr ''regexp''"
proof -
  have r: "recognized (regexp_literal ''a'')"
    by (simp add: recognized_def known_kinds_def regexp_literal_def)
  have c: "constructor_readable (regexp_literal ''a'')"
    by (simp add: constructor_readable_def Get_regexp_literal)
  have o: "observations (Object (Obj Ordinary [(''constructor'', Data RegExp)] None))
     = observations (regexp_literal ''a'')"
    by (simp add: observations_def generic_object_def Get_regexp_literal)
       (simp add: regexp_literal_def)
  note spec = getType_recognized [OF r c]
  from spec have g: "getType (regexp_literal ''a'') = Inr ''regexp''"
    by blast
  from spec o
  have "getType (Object (Obj Ordinary [(''constructor'', Data RegExp)] None))
          = getType (regexp_literal ''a'')"
    by blast
  with g o r c show ?thesis
    by (simp add: ValueType_def)
qed

text \<open>
  C3, as the specification states it: \<open>getType\<close> checks the kinds in a fixed order and
  the first match decides, the generic object being tagged \<open>regexp\<close> exactly when its
  constructor is identical to \<^verbatim>\<open>RegExp\<close> and \<open>object\<close> otherwise. On the object
  whose property \<^verbatim>\<open>constructor\<close> is an accessor that throws, the constructor is not
  \<^verbatim>\<open>RegExp\<close> and the steps give \<open>object\<close>, but \<open>getType\<close> throws what the accessor
  throws.
\<close>

theorem getType_first_match_counterexample:
  "first_match classify_steps throwing_constructor = Some ''object'' \<and>
   getType throwing_constructor = Inl (Error ''boom'')"
  by (simp add: classify_steps_def throwing_constructor_def getType_Object)

text \<open>
  C3, amended: for every value whose property \<^verbatim>\<open>constructor\<close> can be read when the
  value is a generic object, \<open>getType\<close> checks the kinds in a fixed order and the first
  match decides: \<open>undefined\<close>, then \<open>null\<close> (before any test for a generic object), then
  \<open>array\<close>, then \<open>boolean\<close>, \<open>function\<close>, \<open>number\<close>, \<open>string\<close>, then the generic
  object, which is tagged \<open>regexp\<close> exactly when its constructor is identical to
  \<^verbatim>\<open>RegExp\<close> and \<open>object\<close> otherwise, then \<open>symbol\<close>. A value that no step matches is
  one of an unrecognized kind, on which \<open>getType\<close> throws.
\<close>

theorem getType_first_match:
  assumes "constructor_readable v"
  shows "case first_match classify_steps v of
           Some t \<Rightarrow> getType v = Inr t
         | None \<Rightarrow> \<not> recognized v \<and> isl (getType v)"
proof (cases v)
  case (Object ob)
  with assms obtain c where c: "Get_obj ob ''constructor'' = Inr c"
    by (cases "Get_obj ob ''constructor''")
       (simp_all add: constructor_readable_def generic_object_def)
  have "first_match classify_steps v = Some (if c = RegExp then ''regexp'' else ''object'')"
    by (simp add: Object c classify_steps_def)
  with Object c show ?thesis
    by (simp add: getType_Object)
next
  case (BigInt n)
  have "first_match classify_steps v = None"
    by (simp add: BigInt classify_steps_def)
  with BigInt show ?thesis
    by (simp add: getType_BigInt recognized_iff)
qed (simp_all add: classify_steps_def getType_primitive)

theorem getType_first_match_witness:
  "constructor_readable Null \<and> typeof Null = ''object'' \<and> getType Null = Inr ''null'' \<and>
   constructor_readable (Array []) \<and> typeof (Array []) = ''object'' \<and>
   getType (Array []) = Inr ''array'' \<and>
   constructor_readable (regexp_literal ''a'') \<and> getType (regexp_literal ''a'') = Inr ''regexp''"
proof -
  have r1: "constructor_readable Null" and r2: "constructor_readable (Array [])"
    by (simp_all add: constructor_readable_def generic_object_def)
  have r3: "constructor_readable (regexp_literal ''a'')"
    by (simp add: constructor_readable_def Get_regexp_literal)
  have m1: "first_match classify_steps Null = Some ''null''"
    and m2: "first_match classify_steps (Array []) = Some ''array''"
    by (simp_all add: classify_steps_def)
  have m3: "first_match classify_steps (regexp_literal ''a'') = Some ''regexp''"
    using Get_regexp_literal [of "''a''"]
    by (simp add: classify_steps_def) (simp add: regexp_literal_def)
  from getType_first_match [OF r1] getType_first_match [OF r2] getType_first_match [OF r3]
       m1 m2 m3 r1 r2 r3
  show ?thesis by simp
qed

text \<open>
  C10: on the branch of the generic object the tag is decided by the identity of the
  constructor alone. Every value of \<^verbatim>\<open>typeof\<close> \<open>object\<close> that is neither
  \<^verbatim>\<open>null\<close> nor an array and whose property \<^verbatim>\<open>constructor\<close> is \<^verbatim>\<open>RegExp\<close> is
  tagged \<open>regexp\<close>, also when it is not a genuine regular expression; every one whose
  property \<^verbatim>\<open>constructor\<close> is anything else, \<^verbatim>\<open>undefined\<close> for an object without
  a constructor included, is tagged \<open>object\<close>, and \<open>getType\<close> does not throw.
\<close>

theorem getType_constructor_identity:
  assumes "typeof v = ''object''" and "v \<noteq> Null" and "\<not> isArray v"
    and "Get_constructor v = Inr c"
  shows "getType v = Inr (if c = RegExp then ''regexp'' else ''object'')"
  using assms by (cases v) (simp_all add: getType_Object)

theorem getType_constructor_identity_witness:
  "getType (Object (Obj Ordinary [(''constructor'', Data RegExp)] (Some Object_prototype)))
     = Inr ''regexp'' \<and>
   getType (Object (Obj Ordinary [] None)) = Inr ''object'' \<and>
   getType (Object (Obj (RegExpObject ''a'') [(''constructor'', Data (Function ''Object''))]
                      (Some RegExp_prototype))) = Inr ''object''"
proof -
  have a: "Get_constructor (Object (Obj Ordinary [(''constructor'', Data RegExp)]
             (Some Object_prototype))) = Inr RegExp"
    by simp
  have b: "Get_constructor (Object (Obj Ordinary [] None)) = Inr Undefined"
    by simp
  have c: "Get_constructor (Object (Obj (RegExpObject ''a'')
             [(''constructor'', Data (Function ''Object''))] (Some RegExp_prototype)))
           = Inr (Function ''Object'')"
    by simp
  from getType_constructor_identity [OF _ _ _ a] getType_constructor_identity [OF _ _ _ b]
       getType_constructor_identity [OF _ _ _ c]
  show ?thesis by (simp add: RegExp_def)
qed

section \<open>printWithType\<close>

lemma printWithType_returns:
  assumes "getType received = Inr type" and "print received = Inr s"
  shows "printWithType name received print =
           Inr (name @ '':'' @
                (if type \<noteq> ''null'' \<and> type \<noteq> ''undefined''
                 then newline @ ''  '' @ type @ '': '' else '' '') @ s)"
  using assms by (simp add: printWithType_def)

lemma printWithType_getType_throws:
  "getType received = Inl e \<Longrightarrow> printWithType name received print = Inl e"
  by (simp add: printWithType_def)

lemma printWithType_print_throws:
  "getType received = Inr type \<Longrightarrow> print received = Inl e \<Longrightarrow>
   printWithType name received print = Inl e"
  by (simp add: printWithType_def)

lemma stringify_primary:
  "pf v \<lparr>callToJSON = None, maxDepth = 10, min_opt = True\<rparr> = Inr s \<Longrightarrow>
   stringify pf v = Inr s"
  by (simp add: stringify_def)

lemma print_plain:
  assumes "pf v \<lparr>callToJSON = None, maxDepth = 10, min_opt = True\<rparr> = Inr s"
  shows "printExpected plain_chalk pf v = Inr s" and "printReceived plain_chalk pf v = Inr s"
  using assms
  by (simp_all add: stringify_def printExpected_def printReceived_def EXPECTED_COLOR_def
        RECEIVED_COLOR_def plain_chalk_def)



section \<open>matcherHint\<close>

lemma matcherHint_plain_chalk:
  "matcherHint plain_chalk matcherName received expected =
     ''expect('' @ (case received of None \<Rightarrow> ''received'' | Some r \<Rightarrow> r) @ '')'' @
     matcherName @ ''('' @ (case expected of None \<Rightarrow> ''expected'' | Some x \<Rightarrow> x) @ '')''"
  by (simp add: matcherHint_def plain_chalk_def RECEIVED_COLOR_def EXPECTED_COLOR_def)

text \<open>
  C8: with colours that pass their argument through, \<open>matcherHint(matcherName)\<close> is
  \<open>"expect(" + receivedLabel + ")" + matcherName + "(" + expectedLabel + ")"\<close> with
  \<open>matcherName\<close> inserted as it is and the labels \<open>received\<close> and \<open>expected\<close> when none
  are supplied; \<open>matcherHint(".toBe")\<close> is \<open>expect(received).toBe(expected)\<close>.
\<close>

theorem matcherHint_spec:
  "matcherHint plain_chalk matcherName (Some receivedLabel) (Some expectedLabel) =
     ''expect('' @ receivedLabel @ '')'' @ matcherName @ ''('' @ expectedLabel @ '')'' \<and>
   matcherHint plain_chalk matcherName None None =
     ''expect('' @ ''received'' @ '')'' @ matcherName @ ''('' @ ''expected'' @ '')'' \<and>
   matcherHint plain_chalk matcherName None (Some expectedLabel) =
     ''expect('' @ ''received'' @ '')'' @ matcherName @ ''('' @ expectedLabel @ '')'' \<and>
   matcherHint plain_chalk matcherName (Some receivedLabel) None =
     ''expect('' @ receivedLabel @ '')'' @ matcherName @ ''('' @ ''expected'' @ '')'' \<and>
   matcherHint plain_chalk ''.toBe'' None None = ''expect(received).toBe(expected)''"
  by (simp add: matcherHint_plain_chalk)

theorem matcherHint_spec_witness:
  "matcherHint plain_chalk ''[.not].toBe'' None None = ''expect(received)[.not].toBe(expected)'' \<and>
   matcherHint plain_chalk ''.toBe'' (Some ''a'') (Some ''b'') = ''expect(a).toBe(b)''"
  using matcherHint_spec [of "''[.not].toBe''" "''a''" "''b''"]
        matcherHint_spec [of "''.toBe''" "''a''" "''b''"]
  by simp

section \<open>pluralize\<close>

lemma NUMBERS_at_inside: "n \<le> 13 \<Longrightarrow> NUMBERS_at (int n) = Some (NUMBERS ! n)"
  by (simp add: NUMBERS_at_def NUMBERS_def)

lemma NUMBERS_at_outside: "14 \<le> n \<Longrightarrow> NUMBERS_at (int n) = None"
  by (simp add: NUMBERS_at_def NUMBERS_def)

lemma NUMBERS_truthy: "n \<le> 13 \<Longrightarrow> NUMBERS ! n \<noteq> []"
proof -
  assume "n \<le> 13"
  then have "NUMBERS ! n \<in> set NUMBERS"
    by (intro nth_mem) (simp add: NUMBERS_def)
  moreover have "\<forall>w \<in> set NUMBERS. w \<noteq> []"
    by (simp add: NUMBERS_def)
  ultimately show ?thesis by blast
qed

lemma to_double_1e21:
  "to_double 1000000000000000000000 = 1000000000000000000000"
  "to_double 2000000000000000000000 = 2000000000000000000000"
  by (simp_all add: to_double_def bit_length.simps)

lemma candidate_1e21: "candidate 1000000000000000000000 21 = Some 1"
  using to_double_1e21 by (simp add: candidate_def Let_def)

lemma shortest_1e21: "shortest 1000000000000000000000 21 = (1, 21)"
  by (subst shortest.simps) (simp add: candidate_1e21)

lemma is_double_1e21: "is_double 1000000000000000000000"
  using to_double_1e21(1) by (simp add: is_double_def)

lemma Number_toString_1e21: "Number_toString 1000000000000000000000 = ''1e+21''"
proof -
  have d: "decimal_nat 1000000000000000000000 = ''1000000000000000000000''"
    by (simp add: decimal_nat.simps digit_values)
  have one: "decimal_nat (Suc 0) = ''1''" and e: "decimal_nat 21 = ''21''"
    by (simp_all add: decimal_nat.simps digit_values)
  from d have len: "length (decimal_nat 1000000000000000000000) - 1 = 21"
    by simp
  have "Number_toString_nat 1000000000000000000000 = ''1e+21''"
    by (subst Number_toString_nat_def, subst len, subst shortest_1e21)
       (simp add: one e strip_zeros_def Let_def)
  then show ?thesis
    by (simp add: Number_toString_def)
qed

lemma shortest_2p57: "shortest 144115188075855872 17 = (14411518807585587, 1)"
  by (simp add: shortest.simps candidate_def Let_def to_double_def bit_length.simps)

lemma is_double_2p57: "is_double 144115188075855872"
  by (simp add: is_double_def to_double_def bit_length.simps)

lemma Number_toString_2p57: "Number_toString 144115188075855872 = ''144115188075855870''"
proof -
  have d: "decimal_nat 144115188075855872 = ''144115188075855872''"
    by (simp add: decimal_nat.simps digit_values)
  from d have len: "length (decimal_nat 144115188075855872) - 1 = 17"
    by simp
  have s: "decimal_nat 14411518807585587 = ''14411518807585587''"
    by (simp add: decimal_nat.simps digit_values)
  have "Number_toString_nat 144115188075855872 = ''144115188075855870''"
    by (subst Number_toString_nat_def, subst len, subst shortest_2p57)
       (simp add: s Let_def)
  then show ?thesis
    by (simp add: Number_toString_def)
qed

text \<open>
  C7, as the specification states it: for every natural count from 14 on, \<open>pluralize\<close>
  uses the numeral of the count. The count is a double and the concatenation converts
  it as \<^verbatim>\<open>Number::toString\<close> does, which is not the numeral of every double with a
  natural value: \<open>2 ^ 57\<close> is one, and its text ends in \<open>70\<close> where its numeral ends
  in \<open>72\<close>; \<open>10 ^ 21\<close> is one, and its text is \<open>1e+21\<close>.
\<close>

theorem pluralize_numeral_counterexample:
  "is_double (2 ^ 57) \<and>
   decimal (2 ^ 57) = ''144115188075855872'' \<and>
   pluralize ''apple'' (2 ^ 57) = ''144115188075855870 apples'' \<and>
   is_double (10 ^ 21) \<and>
   decimal (10 ^ 21) = ''1000000000000000000000'' \<and>
   pluralize ''apple'' (10 ^ 21) = ''1e+21 apples''"
proof -
  have "decimal 144115188075855872 = ''144115188075855872''"
    and "decimal 1000000000000000000000 = ''1000000000000000000000''"
    by (simp_all add: decimal_def decimal_nat.simps digit_values)
  moreover have "NUMBERS_at 144115188075855872 = None"
    and "NUMBERS_at 1000000000000000000000 = None"
    by (simp_all add: NUMBERS_at_def NUMBERS_def)
  then have "pluralize ''apple'' 144115188075855872 = ''144115188075855870 apples''"
    and "pluralize ''apple'' 1000000000000000000000 = ''1e+21 apples''"
    by (simp_all add: pluralize_def Number_toString_2p57 Number_toString_1e21)
  ultimately show ?thesis
    using is_double_2p57 is_double_1e21 by simp
qed

text \<open>
  C7, amended: for every word and every natural count below \<open>2 ^ 53\<close>, all of which are
  Numbers, \<open>pluralize\<close> spells the count as a word for the counts 0 to 13 (\<open>zero\<close> to
  \<open>thirteen\<close>), uses the numeral for every count from 14 on, and appends \<open>s\<close> to the word
  unless the count is 1; \<open>pluralize("apple", 1)\<close> is \<open>one apple\<close>,
  \<open>pluralize("apple", 2)\<close> is \<open>two apples\<close> and \<open>pluralize("apple", 20)\<close> is
  \<open>20 apples\<close>.
\<close>

theorem pluralize_spec:
  assumes "n < 2 ^ 53"
  shows "is_double n \<and>
    pluralize word (int n) =
     (if n \<le> 13
      then [''zero'', ''one'', ''two'', ''three'', ''four'', ''five'', ''six'', ''seven'',
            ''eight'', ''nine'', ''ten'', ''eleven'', ''twelve'', ''thirteen''] ! n
      else decimal (int n)) @
     '' '' @ word @ (if n = 1 then [] else ''s'')"
proof
  have "(2::nat) ^ 53 < 2 ^ 1024"
    by (rule power_strict_increasing) simp_all
  with assms show "is_double n"
    by (simp add: is_double_def to_double_def)
next
  from assms have conv: "Number_toString (int n) = decimal (int n)"
    by (simp add: Number_toString_safe)
  show "pluralize word (int n) =
     (if n \<le> 13
      then [''zero'', ''one'', ''two'', ''three'', ''four'', ''five'', ''six'', ''seven'',
            ''eight'', ''nine'', ''ten'', ''eleven'', ''twelve'', ''thirteen''] ! n
      else decimal (int n)) @
     '' '' @ word @ (if n = 1 then [] else ''s'')"
  proof (cases "n \<le> 13")
    case True
    from NUMBERS_at_inside [OF True] NUMBERS_truthy [OF True] True
    show ?thesis
      by (simp add: pluralize_def) (simp add: NUMBERS_def)
  next
    case False
    then have "14 \<le> n" by simp
    from NUMBERS_at_outside [OF this] False conv show ?thesis
      by (simp add: pluralize_def)
  qed
qed

theorem pluralize_spec_witness:
  "pluralize ''apple'' 1 = ''one apple'' \<and>
   pluralize ''apple'' 2 = ''two apples'' \<and>
   pluralize ''apple'' 20 = ''20 apples'' \<and>
   pluralize ''apple'' 0 = ''zero apples'' \<and>
   pluralize ''apple'' 13 = ''thirteen apples''"
proof -
  have b: "(1::nat) < 2 ^ 53" "(2::nat) < 2 ^ 53" "(20::nat) < 2 ^ 53" "(0::nat) < 2 ^ 53"
    "(13::nat) < 2 ^ 53"
    by simp_all
  from pluralize_spec [OF b(1), of "''apple''"] pluralize_spec [OF b(2), of "''apple''"]
       pluralize_spec [OF b(3), of "''apple''"] pluralize_spec [OF b(4), of "''apple''"]
       pluralize_spec [OF b(5), of "''apple''"]
  show ?thesis
    by (simp add: decimal_small)
qed

section \<open>Guards\<close>

lemma ensureNoExpected_returns_iff:
  "ensureNoExpected ch pf expected matcherName = Inr () \<longleftrightarrow> expected = Undefined"
  by (simp add: ensureNoExpected_def typeof_undefined_iff split: sum.splits)

lemma ensureNoExpected_throws:
  assumes "expected \<noteq> Undefined"
    and "printWithType ''Got'' expected (printExpected ch pf) = Inr s"
  shows "ensureNoExpected ch pf expected matcherName =
           Inl (Error (matcherHint ch (''[.not]'' @ or_default matcherName ''This'') None (Some []) @
                       newline @ newline @
                       ''Matcher does not accept any arguments.'' @ newline @ s))"
  using assms by (simp add: ensureNoExpected_def typeof_undefined_iff)

lemma ensureActualIsNumber_returns_iff:
  "ensureActualIsNumber ch pf actual matcherName = Inr () \<longleftrightarrow> typeof actual = ''number''"
  by (simp add: ensureActualIsNumber_def split: sum.splits)

lemma ensureActualIsNumber_throws:
  assumes "typeof actual \<noteq> ''number''"
    and "printWithType ''Received'' actual (printReceived ch pf) = Inr s"
  shows "ensureActualIsNumber ch pf actual matcherName =
           Inl (Error (matcherHint ch (''[.not]'' @ or_default matcherName ''This matcher'')
                         None None @
                       newline @ newline @
                       ''Actual value must be a number.'' @ newline @ s))"
  using assms by (simp add: ensureActualIsNumber_def)

lemma ensureExpectedIsNumber_returns_iff:
  "ensureExpectedIsNumber ch pf expected matcherName = Inr () \<longleftrightarrow> typeof expected = ''number''"
  by (simp add: ensureExpectedIsNumber_def split: sum.splits)

lemma ensureExpectedIsNumber_throws:
  assumes "typeof expected \<noteq> ''number''"
    and "printWithType ''Got'' expected (printExpected ch pf) = Inr s"
  shows "ensureExpectedIsNumber ch pf expected matcherName =
           Inl (Error (matcherHint ch (''[.not]'' @ or_default matcherName ''This matcher'')
                         None None @
                       newline @ newline @
                       ''Expected value must be a number.'' @ newline @ s))"
  using assms by (simp add: ensureExpectedIsNumber_def)

lemma ensureNumbers_order:
  "ensureNumbers ch pf actual expected matcherName =
     (if typeof actual = ''number''
      then ensureExpectedIsNumber ch pf expected matcherName
      else ensureActualIsNumber ch pf actual matcherName)"
proof (cases "typeof actual = ''number''")
  case True
  then have "ensureActualIsNumber ch pf actual matcherName = Inr ()"
    by (simp add: ensureActualIsNumber_returns_iff)
  with True show ?thesis by (simp add: ensureNumbers_def)
next
  case False
  then have "ensureActualIsNumber ch pf actual matcherName \<noteq> Inr ()"
    by (simp add: ensureActualIsNumber_returns_iff)
  then obtain e where "ensureActualIsNumber ch pf actual matcherName = Inl e"
    by (cases "ensureActualIsNumber ch pf actual matcherName") simp_all
  with False show ?thesis by (simp add: ensureNumbers_def)
qed

lemma or_default_truthy: "name \<noteq> [] \<Longrightarrow> or_default (Some name) d = name"
  by (simp add: or_default_def)

lemma or_default_falsy: "or_default (Some []) d = d" "or_default None d = d"
  by (simp_all add: or_default_def)

lemma printWithType_Number_sample:
  "printWithType ''Got'' (Number 5) (printExpected plain_chalk sample_prettyFormat)
     = Inr (''Got:'' @ newline @ ''  number: 5'')"
  by (simp add: printWithType_def getType_primitive print_plain(1) Number_toString_small)

lemma printWithType_String_sample:
  "printWithType ''Received'' (String ''x'') (printReceived plain_chalk sample_prettyFormat)
     = Inr (''Received:'' @ newline @ ''  string: x'')"
  "printWithType ''Got'' (String ''y'') (printExpected plain_chalk sample_prettyFormat)
     = Inr (''Got:'' @ newline @ ''  string: y'')"
  by (simp_all add: printWithType_def getType_primitive print_plain)

lemma ensureNoExpected_propagates:
  assumes "expected \<noteq> Undefined"
    and "printWithType ''Got'' expected (printExpected ch pf) = Inl e"
  shows "ensureNoExpected ch pf expected matcherName = Inl e"
  using assms by (simp add: ensureNoExpected_def typeof_undefined_iff)

lemma ensureActualIsNumber_propagates:
  assumes "typeof actual \<noteq> ''number''"
    and "printWithType ''Received'' actual (printReceived ch pf) = Inl e"
  shows "ensureActualIsNumber ch pf actual matcherName = Inl e"
  using assms by (simp add: ensureActualIsNumber_def)

lemma ensureExpectedIsNumber_propagates:
  assumes "typeof expected \<noteq> ''number''"
    and "printWithType ''Got'' expected (printExpected ch pf) = Inl e"
  shows "ensureExpectedIsNumber ch pf expected matcherName = Inl e"
  using assms by (simp add: ensureExpectedIsNumber_def)

lemma or_default_cases:
  "or_default matcherName d =
     (case matcherName of None \<Rightarrow> d | Some n \<Rightarrow> if n = [] then d else n)"
  by (simp add: or_default_def split: option.splits)

lemma getType_throwing_constructor: "getType throwing_constructor = Inl (Error ''boom'')"
  by (simp add: throwing_constructor_def getType_Object)

lemma printWithType_throwing_constructor:
  "printWithType name throwing_constructor print = Inl (Error ''boom'')"
  by (simp add: printWithType_def getType_throwing_constructor)

lemma printWithType_BigInt_10:
  "printWithType name (BigInt 10) print = Inl (Error ''value of unknown type: 10'')"
  by (simp add: printWithType_def getType_BigInt decimal_def decimal_nat.simps digit_values)

text \<open>
  C5, as the specification states it: whenever \<open>expected\<close> is not \<^verbatim>\<open>undefined\<close>,
  \<open>ensureNoExpected\<close> fails with an error whose message is the hint built with the label
  \<open>"[.not]" + matcherName\<close>, a blank line, the line
  \<open>Matcher does not accept any arguments.\<close> and
  \<open>printWithType("Got", expected, printExpected)\<close>. The message is built after
  \<open>printWithType\<close> has returned: on the object whose property \<^verbatim>\<open>constructor\<close> is
  an accessor that throws, the guard throws what the accessor throws, without hint and
  without that line. And for the empty \<open>matcherName\<close> the label is \<open>[.not]This\<close>.
\<close>

theorem ensureNoExpected_message_counterexample:
  "throwing_constructor \<noteq> Undefined \<and>
   ensureNoExpected plain_chalk sample_prettyFormat throwing_constructor (Some ''toBeTruthy'')
     = Inl (Error ''boom'') \<and>
   ensureNoExpected plain_chalk sample_prettyFormat (Number 5) (Some []) =
     Inl (Error (''expect(received)[.not]This()'' @ newline @ newline @
                 ''Matcher does not accept any arguments.'' @ newline @
                 ''Got:'' @ newline @ ''  number: 5''))"
proof -
  have "throwing_constructor \<noteq> Undefined"
    by (simp add: throwing_constructor_def)
  moreover from this
  have "ensureNoExpected plain_chalk sample_prettyFormat throwing_constructor
          (Some ''toBeTruthy'') = Inl (Error ''boom'')"
    by (rule ensureNoExpected_propagates) (rule printWithType_throwing_constructor)
  moreover
  have "ensureNoExpected plain_chalk sample_prettyFormat (Number 5) (Some []) =
     Inl (Error (''expect(received)[.not]This()'' @ newline @ newline @
                 ''Matcher does not accept any arguments.'' @ newline @
                 ''Got:'' @ newline @ ''  number: 5''))"
    using ensureNoExpected_throws [where ch = plain_chalk and pf = sample_prettyFormat
            and expected = "Number 5" and matcherName = "Some []", OF _ printWithType_Number_sample]
    by (simp add: or_default_falsy matcherHint_plain_chalk)
  ultimately show ?thesis by blast
qed

text \<open>
  C5, amended: \<open>ensureNoExpected(expected, matcherName)\<close> returns exactly when
  \<open>expected\<close> is \<^verbatim>\<open>undefined\<close>. Otherwise it throws: when
  \<open>printWithType("Got", expected, printExpected)\<close> returns a string, an error whose
  message is the matcher hint built with the label \<open>"[.not]" + matcherName\<close> (with \<open>This\<close>
  for a \<open>matcherName\<close> that is absent or empty) and an empty expected slot, a blank line,
  the line \<open>Matcher does not accept any arguments.\<close> and that string; and when
  \<open>printWithType\<close> throws, what it throws.
\<close>

theorem ensureNoExpected_spec:
  "(ensureNoExpected ch pf expected matcherName = Inr () \<longleftrightarrow> expected = Undefined) \<and>
   (expected \<noteq> Undefined \<longrightarrow>
    printWithType ''Got'' expected (printExpected ch pf) = Inr s \<longrightarrow>
      ensureNoExpected ch pf expected matcherName =
        Inl (Error (matcherHint ch
                      (''[.not]'' @
                       (case matcherName of
                          None \<Rightarrow> ''This''
                        | Some n \<Rightarrow> if n = [] then ''This'' else n))
                      None (Some []) @
                    newline @ newline @
                    ''Matcher does not accept any arguments.'' @ newline @ s))) \<and>
   (expected \<noteq> Undefined \<longrightarrow>
    printWithType ''Got'' expected (printExpected ch pf) = Inl e \<longrightarrow>
      ensureNoExpected ch pf expected matcherName = Inl e)"
proof (intro conjI impI)
  show "ensureNoExpected ch pf expected matcherName = Inr () \<longleftrightarrow> expected = Undefined"
    by (rule ensureNoExpected_returns_iff)
next
  assume "expected \<noteq> Undefined"
    and "printWithType ''Got'' expected (printExpected ch pf) = Inr s"
  then show "ensureNoExpected ch pf expected matcherName =
        Inl (Error (matcherHint ch
                      (''[.not]'' @
                       (case matcherName of
                          None \<Rightarrow> ''This''
                        | Some n \<Rightarrow> if n = [] then ''This'' else n))
                      None (Some []) @
                    newline @ newline @
                    ''Matcher does not accept any arguments.'' @ newline @ s))"
    by (simp add: ensureNoExpected_throws or_default_cases)
next
  assume "expected \<noteq> Undefined"
    and "printWithType ''Got'' expected (printExpected ch pf) = Inl e"
  then show "ensureNoExpected ch pf expected matcherName = Inl e"
    by (rule ensureNoExpected_propagates)
qed

theorem ensureNoExpected_spec_witness:
  "ensureNoExpected plain_chalk sample_prettyFormat Undefined (Some ''toBeTruthy'') = Inr () \<and>
   ensureNoExpected plain_chalk sample_prettyFormat (Number 5) (Some ''toBeTruthy'') =
     Inl (Error (''expect(received)[.not]toBeTruthy()'' @ newline @ newline @
                 ''Matcher does not accept any arguments.'' @ newline @
                 ''Got:'' @ newline @ ''  number: 5'')) \<and>
   ensureNoExpected plain_chalk sample_prettyFormat (BigInt 10) None =
     Inl (Error ''value of unknown type: 10'')"
  using ensureNoExpected_spec [where ch = plain_chalk and pf = sample_prettyFormat
          and expected = Undefined and matcherName = "Some ''toBeTruthy''"]
        ensureNoExpected_spec [where ch = plain_chalk and pf = sample_prettyFormat
          and expected = "Number 5" and matcherName = "Some ''toBeTruthy''"
          and s = "''Got:'' @ newline @ ''  number: 5''"]
        ensureNoExpected_spec [where ch = plain_chalk and pf = sample_prettyFormat
          and expected = "BigInt 10" and matcherName = None
          and e = "Error ''value of unknown type: 10''"]
        printWithType_Number_sample
        printWithType_BigInt_10 [of "''Got''" "printExpected plain_chalk sample_prettyFormat"]
  by (simp add: matcherHint_plain_chalk)

text \<open>
  C6, as the specification states it: whenever \<^verbatim>\<open>typeof actual\<close> is not \<open>number\<close>,
  \<open>ensureActualIsNumber\<close> fails with a message that holds
  \<open>Actual value must be a number.\<close> and \<open>printWithType("Received", actual, printReceived)\<close>,
  and so does \<open>ensureNumbers\<close> when neither argument is a number. The message is built
  after \<open>printWithType\<close> has returned: on a BigInt, whose \<^verbatim>\<open>typeof\<close> is not
  \<open>number\<close>, both guards throw the error of \<open>getType\<close>, which holds neither.
\<close>

theorem ensureNumbers_message_counterexample:
  "typeof (BigInt 10) \<noteq> ''number'' \<and>
   ensureActualIsNumber plain_chalk sample_prettyFormat (BigInt 10) (Some ''toBe'') =
     Inl (Error ''value of unknown type: 10'') \<and>
   ensureExpectedIsNumber plain_chalk sample_prettyFormat (BigInt 10) (Some ''toBe'') =
     Inl (Error ''value of unknown type: 10'') \<and>
   ensureNumbers plain_chalk sample_prettyFormat (BigInt 10) (String ''y'') (Some ''toBe'') =
     Inl (Error ''value of unknown type: 10'')"
proof -
  have t: "typeof (BigInt 10) \<noteq> ''number''" by simp
  have a: "ensureActualIsNumber plain_chalk sample_prettyFormat (BigInt 10) (Some ''toBe'') =
     Inl (Error ''value of unknown type: 10'')"
    using t by (rule ensureActualIsNumber_propagates) (rule printWithType_BigInt_10)
  have b: "ensureExpectedIsNumber plain_chalk sample_prettyFormat (BigInt 10) (Some ''toBe'') =
     Inl (Error ''value of unknown type: 10'')"
    using t by (rule ensureExpectedIsNumber_propagates) (rule printWithType_BigInt_10)
  from a have "ensureNumbers plain_chalk sample_prettyFormat (BigInt 10) (String ''y'')
      (Some ''toBe'') = Inl (Error ''value of unknown type: 10'')"
    by (simp add: ensureNumbers_def)
  with t a b show ?thesis by simp
qed

text \<open>
  C6, amended: \<open>ensureActualIsNumber(actual, matcherName)\<close> throws exactly when
  \<^verbatim>\<open>typeof actual\<close> is not \<open>number\<close>: when
  \<open>printWithType("Received", actual, printReceived)\<close> returns a string, an error whose
  message is the hint (label \<open>"[.not]" + matcherName\<close>, with \<open>This matcher\<close> for a
  \<open>matcherName\<close> that is absent or empty), a blank line, \<open>Actual value must be a number.\<close>
  and that string; and when \<open>printWithType\<close> throws, what it throws.
  \<open>ensureExpectedIsNumber\<close> is the same check of \<open>expected\<close> with
  \<open>Expected value must be a number.\<close> and \<open>printWithType("Got", expected, printExpected)\<close>.
  \<open>ensureNumbers\<close> runs the check of \<open>actual\<close> first and the check of \<open>expected\<close> second,
  so that when neither argument is a number the failure is the one of \<open>actual\<close>.
\<close>

theorem ensureNumbers_spec:
  "(ensureActualIsNumber ch pf actual matcherName = Inr () \<longleftrightarrow> typeof actual = ''number'') \<and>
   (typeof actual \<noteq> ''number'' \<longrightarrow>
    printWithType ''Received'' actual (printReceived ch pf) = Inr s \<longrightarrow>
      ensureActualIsNumber ch pf actual matcherName =
        Inl (Error (matcherHint ch
                      (''[.not]'' @
                       (case matcherName of
                          None \<Rightarrow> ''This matcher''
                        | Some n \<Rightarrow> if n = [] then ''This matcher'' else n))
                      None None @
                    newline @ newline @
                    ''Actual value must be a number.'' @ newline @ s))) \<and>
   (typeof actual \<noteq> ''number'' \<longrightarrow>
    printWithType ''Received'' actual (printReceived ch pf) = Inl e \<longrightarrow>
      ensureActualIsNumber ch pf actual matcherName = Inl e) \<and>
   (ensureExpectedIsNumber ch pf expected matcherName = Inr () \<longleftrightarrow>
      typeof expected = ''number'') \<and>
   (typeof expected \<noteq> ''number'' \<longrightarrow>
    printWithType ''Got'' expected (printExpected ch pf) = Inr s' \<longrightarrow>
      ensureExpectedIsNumber ch pf expected matcherName =
        Inl (Error (matcherHint ch
                      (''[.not]'' @
                       (case matcherName of
                          None \<Rightarrow> ''This matcher''
                        | Some n \<Rightarrow> if n = [] then ''This matcher'' else n))
                      None None @
                    newline @ newline @
                    ''Expected value must be a number.'' @ newline @ s'))) \<and>
   (typeof expected \<noteq> ''number'' \<longrightarrow>
    printWithType ''Got'' expected (printExpected ch pf) = Inl e' \<longrightarrow>
      ensureExpectedIsNumber ch pf expected matcherName = Inl e') \<and>
   (typeof actual = ''number'' \<longrightarrow>
      ensureNumbers ch pf actual expected matcherName =
        ensureExpectedIsNumber ch pf expected matcherName) \<and>
   (typeof actual \<noteq> ''number'' \<longrightarrow>
      ensureNumbers ch pf actual expected matcherName =
        ensureActualIsNumber ch pf actual matcherName \<and>
      isl (ensureNumbers ch pf actual expected matcherName))"
proof (intro conjI impI)
  show "ensureActualIsNumber ch pf actual matcherName = Inr () \<longleftrightarrow> typeof actual = ''number''"
    by (rule ensureActualIsNumber_returns_iff)
  show "ensureExpectedIsNumber ch pf expected matcherName = Inr () \<longleftrightarrow>
      typeof expected = ''number''"
    by (rule ensureExpectedIsNumber_returns_iff)
next
  assume "typeof actual \<noteq> ''number''"
    and "printWithType ''Received'' actual (printReceived ch pf) = Inr s"
  then show "ensureActualIsNumber ch pf actual matcherName =
        Inl (Error (matcherHint ch
                      (''[.not]'' @
                       (case matcherName of
                          None \<Rightarrow> ''This matcher''
                        | Some n \<Rightarrow> if n = [] then ''This matcher'' else n))
                      None None @
                    newline @ newline @
                    ''Actual value must be a number.'' @ newline @ s))"
    by (simp add: ensureActualIsNumber_throws or_default_cases)
next
  assume "typeof actual \<noteq> ''number''"
    and "printWithType ''Received'' actual (printReceived ch pf) = Inl e"
  then show "ensureActualIsNumber ch pf actual matcherName = Inl e"
    by (rule ensureActualIsNumber_propagates)
next
  assume "typeof expected \<noteq> ''number''"
    and "printWithType ''Got'' expected (printExpected ch pf) = Inr s'"
  then show "ensureExpectedIsNumber ch pf expected matcherName =
        Inl (Error (matcherHint ch
                      (''[.not]'' @
                       (case matcherName of
                          None \<Rightarrow> ''This matcher''
                        | Some n \<Rightarrow> if n = [] then ''This matcher'' else n))
                      None None @
                    newline @ newline @
                    ''Expected value must be a number.'' @ newline @ s'))"
    by (simp add: ensureExpectedIsNumber_throws or_default_cases)
next
  assume "typeof expected \<noteq> ''number''"
    and "printWithType ''Got'' expected (printExpected ch pf) = Inl e'"
  then show "ensureExpectedIsNumber ch pf expected matcherName = Inl e'"
    by (rule ensureExpectedIsNumber_propagates)
next
  assume "typeof actual = ''number''"
  then show "ensureNumbers ch pf actual expected matcherName =
        ensureExpectedIsNumber ch pf expected matcherName"
    by (simp add: ensureNumbers_order)
next
  assume a: "typeof actual \<noteq> ''number''"
  then show eq: "ensureNumbers ch pf actual expected matcherName =
        ensureActualIsNumber ch pf actual matcherName"
    by (simp add: ensureNumbers_order)
  from a have "ensureActualIsNumber ch pf actual matcherName \<noteq> Inr ()"
    by (simp add: ensureActualIsNumber_returns_iff)
  then have "isl (ensureActualIsNumber ch pf actual matcherName)"
    by (cases "ensureActualIsNumber ch pf actual matcherName") simp_all
  with eq show "isl (ensureNumbers ch pf actual expected matcherName)"
    by simp
qed

theorem ensureNumbers_spec_witness:
  "ensureActualIsNumber plain_chalk sample_prettyFormat (Number 5) (Some ''toBe'') = Inr () \<and>
   ensureActualIsNumber plain_chalk sample_prettyFormat (String ''x'') (Some ''toBe'') =
     Inl (Error (''expect(received)[.not]toBe(expected)'' @ newline @ newline @
                 ''Actual value must be a number.'' @ newline @
                 ''Received:'' @ newline @ ''  string: x'')) \<and>
   ensureExpectedIsNumber plain_chalk sample_prettyFormat (String ''y'') (Some ''toBe'') =
     Inl (Error (''expect(received)[.not]toBe(expected)'' @ newline @ newline @
                 ''Expected value must be a number.'' @ newline @
                 ''Got:'' @ newline @ ''  string: y'')) \<and>
   ensureNumbers plain_chalk sample_prettyFormat (String ''x'') (String ''y'') (Some ''toBe'') =
     Inl (Error (''expect(received)[.not]toBe(expected)'' @ newline @ newline @
                 ''Actual value must be a number.'' @ newline @
                 ''Received:'' @ newline @ ''  string: x'')) \<and>
   ensureNumbers plain_chalk sample_prettyFormat (Number 5) (String ''y'') (Some ''toBe'') =
     Inl (Error (''expect(received)[.not]toBe(expected)'' @ newline @ newline @
                 ''Expected value must be a number.'' @ newline @
                 ''Got:'' @ newline @ ''  string: y'')) \<and>
   ensureNumbers plain_chalk sample_prettyFormat throwing_constructor throwing_constructor
       (Some ''toBe'') = Inl (Error ''boom'')"
proof -
  note a = ensureNumbers_spec [where ch = plain_chalk and pf = sample_prettyFormat
      and actual = "String ''x''" and expected = "String ''y''"
      and matcherName = "Some ''toBe''"
      and s = "''Received:'' @ newline @ ''  string: x''"
      and s' = "''Got:'' @ newline @ ''  string: y''"]
  note b = ensureNumbers_spec [where ch = plain_chalk and pf = sample_prettyFormat
      and actual = "Number 5" and expected = "String ''y''"
      and matcherName = "Some ''toBe''"
      and s' = "''Got:'' @ newline @ ''  string: y''"]
  note c = ensureNumbers_spec [where ch = plain_chalk and pf = sample_prettyFormat
      and actual = throwing_constructor and expected = throwing_constructor
      and matcherName = "Some ''toBe''" and e = "Error ''boom''" and e' = "Error ''boom''"]
  have t: "typeof throwing_constructor \<noteq> ''number''"
    by (simp add: throwing_constructor_def)
  from a b c t printWithType_String_sample
       printWithType_throwing_constructor
         [of "''Received''" "printReceived plain_chalk sample_prettyFormat"]
       printWithType_throwing_constructor
         [of "''Got''" "printExpected plain_chalk sample_prettyFormat"]
  show ?thesis
    by (simp add: matcherHint_plain_chalk)
qed

text \<open>
  C9, as the specification states it: with the empty string as \<open>matcherName\<close>,
  \<open>ensureNoExpected\<close> on every defined value fails with the hint built from
  \<open>[.not]This\<close>, and the two numeric guards fail with the hint built from
  \<open>[.not]This matcher\<close>. The hint is built after \<open>printWithType\<close> has returned: on the
  object whose property \<^verbatim>\<open>constructor\<close> is an accessor that throws, the three guards
  throw what the accessor throws, without a hint.
\<close>

theorem guards_default_label_counterexample:
  "throwing_constructor \<noteq> Undefined \<and> typeof throwing_constructor \<noteq> ''number'' \<and>
   ensureNoExpected plain_chalk sample_prettyFormat throwing_constructor (Some [])
     = Inl (Error ''boom'') \<and>
   ensureActualIsNumber plain_chalk sample_prettyFormat throwing_constructor (Some [])
     = Inl (Error ''boom'') \<and>
   ensureExpectedIsNumber plain_chalk sample_prettyFormat throwing_constructor (Some [])
     = Inl (Error ''boom'')"
proof -
  have d: "throwing_constructor \<noteq> Undefined"
    and t: "typeof throwing_constructor \<noteq> ''number''"
    by (simp_all add: throwing_constructor_def)
  have "ensureNoExpected plain_chalk sample_prettyFormat throwing_constructor (Some [])
     = Inl (Error ''boom'')"
    using d by (rule ensureNoExpected_propagates) (rule printWithType_throwing_constructor)
  moreover
  have "ensureActualIsNumber plain_chalk sample_prettyFormat throwing_constructor (Some [])
     = Inl (Error ''boom'')"
    using t by (rule ensureActualIsNumber_propagates) (rule printWithType_throwing_constructor)
  moreover
  have "ensureExpectedIsNumber plain_chalk sample_prettyFormat throwing_constructor (Some [])
     = Inl (Error ''boom'')"
    using t by (rule ensureExpectedIsNumber_propagates) (rule printWithType_throwing_constructor)
  ultimately show ?thesis
    using d t by blast
qed

text \<open>
  C9, amended: the guards substitute their default label whenever the supplied
  \<open>matcherName\<close> is falsy, not only when it is absent. With the empty string as
  \<open>matcherName\<close> and a value for which \<open>printWithType\<close> returns a string,
  \<open>ensureNoExpected\<close> on a defined value fails with the hint built from \<open>[.not]This\<close>, and
  \<open>ensureActualIsNumber\<close> and \<open>ensureExpectedIsNumber\<close> on a value that is not a number
  fail with the hint built from \<open>[.not]This matcher\<close>.
\<close>

theorem guards_default_label:
  "(v \<noteq> Undefined \<longrightarrow> printWithType ''Got'' v (printExpected ch pf) = Inr s \<longrightarrow>
      ensureNoExpected ch pf v (Some []) =
        Inl (Error (matcherHint ch ''[.not]This'' None (Some []) @ newline @ newline @
                    ''Matcher does not accept any arguments.'' @ newline @ s)) \<and>
      ensureNoExpected ch pf v None = ensureNoExpected ch pf v (Some [])) \<and>
   (typeof v \<noteq> ''number'' \<longrightarrow>
    printWithType ''Received'' v (printReceived ch pf) = Inr r \<longrightarrow>
      ensureActualIsNumber ch pf v (Some []) =
        Inl (Error (matcherHint ch ''[.not]This matcher'' None None @ newline @ newline @
                    ''Actual value must be a number.'' @ newline @ r)) \<and>
      ensureActualIsNumber ch pf v None = ensureActualIsNumber ch pf v (Some [])) \<and>
   (typeof v \<noteq> ''number'' \<longrightarrow>
    printWithType ''Got'' v (printExpected ch pf) = Inr s \<longrightarrow>
      ensureExpectedIsNumber ch pf v (Some []) =
        Inl (Error (matcherHint ch ''[.not]This matcher'' None None @ newline @ newline @
                    ''Expected value must be a number.'' @ newline @ s)) \<and>
      ensureExpectedIsNumber ch pf v None = ensureExpectedIsNumber ch pf v (Some []))"
  by (simp add: ensureNoExpected_throws ensureActualIsNumber_throws
        ensureExpectedIsNumber_throws or_default_falsy)

theorem guards_default_label_witness:
  "ensureNoExpected plain_chalk sample_prettyFormat (String ''y'') (Some []) =
     Inl (Error (''expect(received)[.not]This()'' @ newline @ newline @
                 ''Matcher does not accept any arguments.'' @ newline @
                 ''Got:'' @ newline @ ''  string: y'')) \<and>
   ensureActualIsNumber plain_chalk sample_prettyFormat (String ''x'') (Some []) =
     Inl (Error (''expect(received)[.not]This matcher(expected)'' @ newline @ newline @
                 ''Actual value must be a number.'' @ newline @
                 ''Received:'' @ newline @ ''  string: x'')) \<and>
   ensureExpectedIsNumber plain_chalk sample_prettyFormat (String ''y'') (Some []) =
     Inl (Error (''expect(received)[.not]This matcher(expected)'' @ newline @ newline @
                 ''Expected value must be a number.'' @ newline @
                 ''Got:'' @ newline @ ''  string: y''))"
proof -
  note a = guards_default_label [where ch = plain_chalk and pf = sample_prettyFormat
      and v = "String ''x''" and r = "''Received:'' @ newline @ ''  string: x''"]
  note b = guards_default_label [where ch = plain_chalk and pf = sample_prettyFormat
      and v = "String ''y''" and s = "''Got:'' @ newline @ ''  string: y''"]
  from a b printWithType_String_sample show ?thesis
    by (simp add: matcherHint_plain_chalk)
qed

end
